theory Spec2Isabelle
  imports Main "HOL-Library.Sublist"
begin

section \<open>JavaScript values\<close>

text \<open>
  The plugin walks the parse tree by reflection (\<^verbatim>\<open>for (const key in node)\<close>) and reads its
  options from an untyped object, so trees, comments and option values are all values of one
  type. An object is its list of own properties in enumeration order. Numbers are the
  integers; fractional numbers and \<^verbatim>\<open>NaN\<close> are not values of the model.
\<close>

datatype js =
    Undefined
  | Null
  | Bool bool
  | Num int
  | Str string
  | Arr "js list"
  | Obj "(string \<times> js) list"

datatype error = SyntaxError | TypeError

definition thenE :: "error + 'a \<Rightarrow> ('a \<Rightarrow> error + 'b) \<Rightarrow> error + 'b" where
  "thenE m f = (case m of Inl e \<Rightarrow> Inl e | Inr x \<Rightarrow> f x)"

text \<open>Truthiness (\<^verbatim>\<open>!x\<close>, \<^verbatim>\<open>x ? a : b\<close>, \<^verbatim>\<open>x && y\<close>): an array is truthy even when empty.\<close>

fun truthy :: "js \<Rightarrow> bool" where
  "truthy Undefined = False"
| "truthy Null = False"
| "truthy (Bool b) = b"
| "truthy (Num n) = (n \<noteq> 0)"
| "truthy (Str s) = (s \<noteq> [])"
| "truthy (Arr xs) = True"
| "truthy (Obj ps) = True"

text \<open>\<^verbatim>\<open>x.k\<close>: a read on \<^verbatim>\<open>undefined\<close> or \<^verbatim>\<open>null\<close> throws; a missing property reads as
  \<^verbatim>\<open>undefined\<close>. None of the keys the plugin reads is a built-in property of an array or
  of a primitive.\<close>

fun getProp :: "js \<Rightarrow> string \<Rightarrow> error + js" where
  "getProp Undefined k = Inl TypeError"
| "getProp Null k = Inl TypeError"
| "getProp (Obj ps) k = Inr (case map_of ps k of Some v \<Rightarrow> v | None \<Rightarrow> Undefined)"
| "getProp v k = Inr Undefined"

text \<open>\<^verbatim>\<open>k in x\<close>: throws unless the right operand is an object.\<close>

fun hasKey :: "string \<Rightarrow> js \<Rightarrow> error + bool" where
  "hasKey k (Obj ps) = Inr (map_of ps k \<noteq> None)"
| "hasKey k (Arr xs) = Inr False"
| "hasKey k v = Inl TypeError"

subsection \<open>Conversion to text, \<^verbatim>\<open>join\<close> and \<^verbatim>\<open>includes\<close>\<close>

definition digit :: "nat \<Rightarrow> char" where
  "digit d = char_of (48 + d)"

fun showNat :: "nat \<Rightarrow> string" where
  "showNat n = (if n < 10 then [digit n] else showNat (n div 10) @ [digit (n mod 10)])"

definition showInt :: "int \<Rightarrow> string" where
  "showInt i = (if i < 0 then CHR ''-'' # showNat (nat (- i)) else showNat (nat i))"

fun joinWith :: "string \<Rightarrow> string list \<Rightarrow> string" where
  "joinWith sep [] = []"
| "joinWith sep [x] = x"
| "joinWith sep (x # y # ys) = x @ sep @ joinWith sep (y # ys)"

text \<open>\<^verbatim>\<open>String(x)\<close>, and the text an array element contributes to \<^verbatim>\<open>join\<close>
  (\<^verbatim>\<open>undefined\<close> and \<^verbatim>\<open>null\<close> contribute nothing).\<close>

fun toString :: "js \<Rightarrow> string"
  and joinItem :: "js \<Rightarrow> string" where
  "toString Undefined = ''undefined''"
| "toString Null = ''null''"
| "toString (Bool b) = (if b then ''true'' else ''false'')"
| "toString (Num n) = showInt n"
| "toString (Str s) = s"
| "toString (Arr xs) = joinWith '','' (map joinItem xs)"
| "toString (Obj ps) = ''[object Object]''"
| "joinItem Undefined = []"
| "joinItem Null = []"
| "joinItem (Bool b) = toString (Bool b)"
| "joinItem (Num n) = toString (Num n)"
| "joinItem (Str s) = toString (Str s)"
| "joinItem (Arr xs) = toString (Arr xs)"
| "joinItem (Obj ps) = toString (Obj ps)"

text \<open>\<^verbatim>\<open>x.join(sep)\<close>: only an array has the method.\<close>

fun join :: "js \<Rightarrow> string \<Rightarrow> error + string" where
  "join (Arr xs) sep = Inr (joinWith sep (map joinItem xs))"
| "join v sep = Inl TypeError"

text \<open>Whether a value is compared by content: two objects or arrays are equal only when
  they are the same object, which a name read from the tree and an element of a decoded
  option never are.\<close>

fun primitive :: "js \<Rightarrow> bool" where
  "primitive (Arr xs) = False"
| "primitive (Obj ps) = False"
| "primitive v = True"

text \<open>\<^verbatim>\<open>x.includes(v)\<close>: membership for an array, a substring test for a string, and no
  such method on anything else.\<close>

fun includes_js :: "js \<Rightarrow> js \<Rightarrow> error + bool" where
  "includes_js (Arr xs) v = Inr (primitive v \<and> v \<in> set xs)"
| "includes_js (Str s) v = Inr (sublist (toString v) s)"
| "includes_js a v = Inl TypeError"

section \<open>Classification of a throw statement\<close>

text \<open>
  The test \<^verbatim>\<open>arg.type === "NewExpression" && arg.callee && "name" in arg.callee && arg.callee.name\<close>
  of \<^verbatim>\<open>isAllowedErrorClass\<close>, for a truthy \<^verbatim>\<open>arg\<close>: it yields the callee's name when every
  conjunct holds. The conjuncts are evaluated left to right and the first falsy one ends it.
\<close>

definition newExpressionName :: "js \<Rightarrow> error + js option" where
  "newExpressionName arg =
     thenE (getProp arg ''type'') (\<lambda>t.
       if t \<noteq> Str ''NewExpression'' then Inr None
       else thenE (getProp arg ''callee'') (\<lambda>callee.
         if \<not> truthy callee then Inr None
         else thenE (hasKey ''name'' callee) (\<lambda>named.
           if \<not> named then Inr None
           else thenE (getProp callee ''name'') (\<lambda>n.
             Inr (if truthy n then Some n else None)))))"

definition isAllowedErrorClass :: "js \<Rightarrow> js \<Rightarrow> error + bool" where
  "isAllowedErrorClass throwExpr allowedClasses =
     thenE (getProp throwExpr ''argument'') (\<lambda>arg.
       if \<not> truthy arg then Inr False
       else thenE (newExpressionName arg) (\<lambda>direct.
         case direct of
           Some n \<Rightarrow> includes_js allowedClasses n
         | None \<Rightarrow>
             thenE (getProp arg ''type'') (\<lambda>t.
               if t = Str ''Identifier'' then Inr True else Inr False)))"

section \<open>Options\<close>

text \<open>
  \<^verbatim>\<open>ThrowErrorOptions\<close>: every field is optional, \<open>None\<close> is a field the caller's object does
  not have. The host passes the three list options as text.
\<close>

record ThrowErrorOptions =
  oHighlightThrows :: "js option"
  oAllowedErrorClasses :: "js option"
  oEnforceAllowedClasses :: "js option"
  oInclude :: "js option"
  oExclude :: "js option"

text \<open>\<^verbatim>\<open>pluginOptions = { ...defaultOptions, ...options }\<close>: every field has a value.\<close>

record PluginOptions =
  pHighlightThrows :: js
  pAllowedErrorClasses :: js
  pEnforceAllowedClasses :: js
  pInclude :: js
  pExclude :: js

definition defaultOptions :: PluginOptions where
  "defaultOptions =
     \<lparr> pHighlightThrows = Bool False,
       pAllowedErrorClasses = Arr [],
       pEnforceAllowedClasses = Bool False,
       pInclude = Arr [],
       pExclude = Arr [] \<rparr>"

text \<open>One field of the spread: a property of \<^verbatim>\<open>options\<close> replaces the default, also when
  its value is \<^verbatim>\<open>undefined\<close>.\<close>

definition spreadField :: "js \<Rightarrow> js option \<Rightarrow> js" where
  "spreadField d v = (case v of None \<Rightarrow> d | Some w \<Rightarrow> w)"

definition spread :: "PluginOptions \<Rightarrow> ThrowErrorOptions \<Rightarrow> PluginOptions" where
  "spread d options =
     \<lparr> pHighlightThrows = spreadField (pHighlightThrows d) (oHighlightThrows options),
       pAllowedErrorClasses = spreadField (pAllowedErrorClasses d) (oAllowedErrorClasses options),
       pEnforceAllowedClasses = spreadField (pEnforceAllowedClasses d) (oEnforceAllowedClasses options),
       pInclude = spreadField (pInclude d) (oInclude options),
       pExclude = spreadField (pExclude d) (oExclude options) \<rparr>"

text \<open>
  \<^verbatim>\<open>if (typeof v === "string") v = JSON.parse(v)\<close>. \<^verbatim>\<open>JSON.parse\<close> belongs to the language,
  not to the plugin: it is the parameter \<open>parse\<close>, \<open>None\<close> where it throws its
  \<^verbatim>\<open>SyntaxError\<close>.
\<close>

definition decodeField :: "(string \<Rightarrow> js option) \<Rightarrow> js option \<Rightarrow> error + js option" where
  "decodeField parse v =
     (case v of
        Some (Str s) \<Rightarrow> (case parse s of None \<Rightarrow> Inl SyntaxError | Some w \<Rightarrow> Inr (Some w))
      | _ \<Rightarrow> Inr v)"

text \<open>
  Lines 65 to 77 of \<^verbatim>\<open>processThrowStatements\<close>. The three assignments write into the
  caller's object, so the object is returned as it is left, together with the merged
  configuration or the error that ended the decoding.
\<close>

definition normalizeOptions ::
  "(string \<Rightarrow> js option) \<Rightarrow> ThrowErrorOptions \<Rightarrow> ThrowErrorOptions \<times> (error + PluginOptions)" where
  "normalizeOptions parse options =
     (case decodeField parse (oInclude options) of
        Inl e \<Rightarrow> (options, Inl e)
      | Inr i \<Rightarrow>
          let o1 = options\<lparr>oInclude := i\<rparr> in
          (case decodeField parse (oExclude o1) of
             Inl e \<Rightarrow> (o1, Inl e)
           | Inr x \<Rightarrow>
               let o2 = o1\<lparr>oExclude := x\<rparr> in
               (case decodeField parse (oAllowedErrorClasses o2) of
                  Inl e \<Rightarrow> (o2, Inl e)
                | Inr a \<Rightarrow>
                    let o3 = o2\<lparr>oAllowedErrorClasses := a\<rparr> in
                    (o3, Inr (spread defaultOptions o3)))))"

section \<open>File filter\<close>

text \<open>
  \<^verbatim>\<open>micromatch.isMatch(filePath, patterns)\<close> is a library call. What one glob pattern matches
  is the parameter \<open>glob\<close> (pattern first, path second). The library builds one matcher
  per pattern before it looks at the path, and refuses with a \<^verbatim>\<open>TypeError\<close> a pattern that
  is not a non-empty string; a list matches when one of its patterns does, so the empty list
  matches no path.
\<close>

fun patternsOk :: "js \<Rightarrow> bool" where
  "patternsOk (Str s) = (s \<noteq> [])"
| "patternsOk (Arr xs) = (\<forall>x \<in> set xs. patternsOk x)"
| "patternsOk v = False"

fun matchesAny :: "(string \<Rightarrow> string \<Rightarrow> bool) \<Rightarrow> string \<Rightarrow> js \<Rightarrow> bool" where
  "matchesAny glob path (Str s) = glob s path"
| "matchesAny glob path (Arr xs) = (\<exists>x \<in> set xs. matchesAny glob path x)"
| "matchesAny glob path v = False"

definition isMatch :: "(string \<Rightarrow> string \<Rightarrow> bool) \<Rightarrow> string \<Rightarrow> js \<Rightarrow> error + bool" where
  "isMatch glob path patterns =
     (if patternsOk patterns then Inr (matchesAny glob path patterns) else Inl TypeError)"

definition shouldInclude :: "(string \<Rightarrow> string \<Rightarrow> bool) \<Rightarrow> PluginOptions \<Rightarrow> string \<Rightarrow> error + bool" where
  "shouldInclude glob pluginOptions filePath =
     (if truthy (pInclude pluginOptions) then isMatch glob filePath (pInclude pluginOptions)
      else Inr True)"

definition shouldExclude :: "(string \<Rightarrow> string \<Rightarrow> bool) \<Rightarrow> PluginOptions \<Rightarrow> string \<Rightarrow> error + bool" where
  "shouldExclude glob pluginOptions filePath =
     (if truthy (pExclude pluginOptions) then isMatch glob filePath (pExclude pluginOptions)
      else Inr False)"

section \<open>Throw annotator\<close>

subsection \<open>Duplicate suppression\<close>

text \<open>\<^verbatim>\<open>x - 1\<close> on a line number: \<open>None\<close> is \<^verbatim>\<open>NaN\<close>, which equals nothing. Text, arrays and
  objects in a line field are not converted (the parser writes numbers there).\<close>

fun toNumber :: "js \<Rightarrow> int option" where
  "toNumber Null = Some 0"
| "toNumber (Bool b) = Some (if b then 1 else 0)"
| "toNumber (Num n) = Some n"
| "toNumber v = None"

definition minusOne :: "js \<Rightarrow> int option" where
  "minusOne v = map_option (\<lambda>n. n - 1) (toNumber v)"

definition startLine :: "js \<Rightarrow> error + js" where
  "startLine c =
     thenE (getProp c ''loc'') (\<lambda>l. thenE (getProp l ''start'') (\<lambda>s. getProp s ''line''))"

text \<open>The callback of \<^verbatim>\<open>some\<close> in \<^verbatim>\<open>hasComment\<close>.\<close>

definition sameComment :: "js \<Rightarrow> js \<Rightarrow> error + bool" where
  "sameComment newComment comment =
     thenE (startLine comment) (\<lambda>line.
       thenE (startLine newComment) (\<lambda>newLine.
         if (case minusOne newLine of None \<Rightarrow> False | Some n \<Rightarrow> line = Num n)
         then thenE (getProp comment ''value'') (\<lambda>v.
                thenE (getProp newComment ''value'') (\<lambda>w. Inr (primitive v \<and> v = w)))
         else Inr False))"

fun some :: "(js \<Rightarrow> error + bool) \<Rightarrow> js list \<Rightarrow> error + bool" where
  "some f [] = Inr False"
| "some f (x # xs) = thenE (f x) (\<lambda>b. if b then Inr True else some f xs)"

text \<open>\<^verbatim>\<open>ast.comments?.some(...)\<close>: without a comment list the answer is \<^verbatim>\<open>undefined\<close>, which
  the callers negate to true.\<close>

definition hasComment :: "js \<Rightarrow> js \<Rightarrow> error + bool" where
  "hasComment ast newComment =
     thenE (getProp ast ''comments'') (\<lambda>cs.
       case cs of
         Undefined \<Rightarrow> Inr False
       | Null \<Rightarrow> Inr False
       | Arr xs \<Rightarrow> some (sameComment newComment) xs
       | _ \<Rightarrow> Inl TypeError)"

subsection \<open>The two rules for a throw statement\<close>

text \<open>The comment object both rules build: \<^verbatim>\<open>{ type: "Block", value, loc: node.loc, range: node.range }\<close>.\<close>

definition blockComment :: "string \<Rightarrow> js \<Rightarrow> error + js" where
  "blockComment text node =
     thenE (getProp node ''loc'') (\<lambda>l.
       thenE (getProp node ''range'') (\<lambda>r.
         Inr (Obj [(''type'', Str ''Block''), (''value'', Str text), (''loc'', l), (''range'', r)])))"

text \<open>
  \<^verbatim>\<open>if (!hasComment(comment)) attachComments(ast, [comment])\<close>. \<^verbatim>\<open>attachComments\<close> is a library
  call that changes the tree in place: it is the parameter \<open>attach\<close>, from the tree and the
  comments handed over to the tree it leaves.
\<close>

definition attachUnlessPresent :: "(js \<Rightarrow> js list \<Rightarrow> js) \<Rightarrow> js \<Rightarrow> js \<Rightarrow> error + js" where
  "attachUnlessPresent attach comment ast =
     thenE (hasComment ast comment) (\<lambda>present.
       if present then Inr ast else Inr (attach ast [comment]))"

definition highlightText :: string where
  "highlightText = '' THROW STATEMENT ''"

definition warningText :: "string \<Rightarrow> string" where
  "warningText allowedClassesStr = '' WARNING: Only throw instances of: '' @ allowedClassesStr @ '' ''"

definition highlightThrow :: "PluginOptions \<Rightarrow> (js \<Rightarrow> js list \<Rightarrow> js) \<Rightarrow> js \<Rightarrow> js \<Rightarrow> error + js" where
  "highlightThrow pluginOptions attach node ast =
     (if truthy (pHighlightThrows pluginOptions)
      then thenE (blockComment highlightText node) (\<lambda>comment. attachUnlessPresent attach comment ast)
      else Inr ast)"

definition enforceThrow :: "PluginOptions \<Rightarrow> (js \<Rightarrow> js list \<Rightarrow> js) \<Rightarrow> js \<Rightarrow> js \<Rightarrow> error + js" where
  "enforceThrow pluginOptions attach node ast =
     (if truthy (pEnforceAllowedClasses pluginOptions)
      then thenE (isAllowedErrorClass node (pAllowedErrorClasses pluginOptions)) (\<lambda>isAllowed.
             if isAllowed then Inr ast
             else thenE (join (pAllowedErrorClasses pluginOptions) '', '') (\<lambda>allowedClassesStr.
                    thenE (blockComment (warningText allowedClassesStr) node) (\<lambda>comment.
                      attachUnlessPresent attach comment ast)))
      else Inr ast)"

definition annotateThrow :: "PluginOptions \<Rightarrow> (js \<Rightarrow> js list \<Rightarrow> js) \<Rightarrow> js \<Rightarrow> js \<Rightarrow> error + js" where
  "annotateThrow pluginOptions attach node ast =
     thenE (highlightThrow pluginOptions attach node ast) (\<lambda>ast1.
       enforceThrow pluginOptions attach node ast1)"

definition isThrow :: "js \<Rightarrow> bool" where
  "isThrow node = (getProp node ''type'' = Inr (Str ''ThrowStatement''))"

subsection \<open>The walk\<close>

text \<open>
  \<^verbatim>\<open>traverse\<close> takes the node and, as state, the tree \<^verbatim>\<open>ast\<close> that \<^verbatim>\<open>hasComment\<close> reads
  and \<^verbatim>\<open>attachComments\<close> changes. It leaves at once on anything but an object without a
  \<^verbatim>\<open>start\<close> property, arrays included; the properties of an object are walked in order, an
  array-valued property element by element. The walk follows the nodes as the parser built
  them: what \<^verbatim>\<open>attachComments\<close> adds are comment entries, which hold no throw statement.
\<close>

fun traverse :: "PluginOptions \<Rightarrow> (js \<Rightarrow> js list \<Rightarrow> js) \<Rightarrow> js \<Rightarrow> js \<Rightarrow> error + js"
  and traverseKeys :: "PluginOptions \<Rightarrow> (js \<Rightarrow> js list \<Rightarrow> js) \<Rightarrow> (string \<times> js) list \<Rightarrow> js \<Rightarrow> error + js"
  and traverseItems :: "PluginOptions \<Rightarrow> (js \<Rightarrow> js list \<Rightarrow> js) \<Rightarrow> js list \<Rightarrow> js \<Rightarrow> error + js" where
  "traverse pluginOptions attach (Obj ps) ast =
     (if map_of ps ''start'' \<noteq> None then Inr ast
      else thenE (if isThrow (Obj ps) then annotateThrow pluginOptions attach (Obj ps) ast else Inr ast)
             (\<lambda>ast1. traverseKeys pluginOptions attach ps ast1))"
| "traverse pluginOptions attach Undefined ast = Inr ast"
| "traverse pluginOptions attach Null ast = Inr ast"
| "traverse pluginOptions attach (Bool b) ast = Inr ast"
| "traverse pluginOptions attach (Num n) ast = Inr ast"
| "traverse pluginOptions attach (Str s) ast = Inr ast"
| "traverse pluginOptions attach (Arr xs) ast = Inr ast"
| "traverseKeys pluginOptions attach [] ast = Inr ast"
| "traverseKeys pluginOptions attach ((key, child) # ps) ast =
     thenE (case child of
              Arr items \<Rightarrow> traverseItems pluginOptions attach items ast
            | _ \<Rightarrow> traverse pluginOptions attach child ast)
       (\<lambda>ast1. traverseKeys pluginOptions attach ps ast1)"
| "traverseItems pluginOptions attach [] ast = Inr ast"
| "traverseItems pluginOptions attach (item # items) ast =
     thenE (traverse pluginOptions attach item ast)
       (\<lambda>ast1. traverseItems pluginOptions attach items ast1)"

section \<open>The pass\<close>

text \<open>
  \<^verbatim>\<open>processThrowStatements(ast, options, filePath)\<close>: the options object as the call leaves
  it, and the tree the promise resolves to or the error it rejects with. The dynamic import
  of the matcher is taken to succeed, and \<^verbatim>\<open>filePath\<close> to be a string.
\<close>

definition processThrowStatements ::
  "(string \<Rightarrow> js option) \<Rightarrow> (string \<Rightarrow> string \<Rightarrow> bool) \<Rightarrow> (js \<Rightarrow> js list \<Rightarrow> js) \<Rightarrow>
     js \<Rightarrow> ThrowErrorOptions \<Rightarrow> string \<Rightarrow> ThrowErrorOptions \<times> (error + js)" where
  "processThrowStatements parse glob attach ast options filePath =
     (case normalizeOptions parse options of
        (options', Inl e) \<Rightarrow> (options', Inl e)
      | (options', Inr pluginOptions) \<Rightarrow>
          (options',
           thenE (shouldInclude glob pluginOptions filePath) (\<lambda>inc.
             thenE (shouldExclude glob pluginOptions filePath) (\<lambda>exc.
               if \<not> inc \<or> exc then Inr ast
               else traverse pluginOptions attach ast ast))))"

section \<open>The comment service\<close>

text \<open>
  \<^verbatim>\<open>attachComments(tree, comments)\<close> comes from the package \<^verbatim>\<open>estree-util-attach-comments\<close>,
  which the plugin requires in version 3.0.0. It is written out here as that version works, so
  that a statement can be run on the service the plugin calls: the comments are sorted by
  start, the tree is walked with the children of every node sorted by start, a comment that
  starts no later than a node starts becomes a leading comment of that node, one that starts
  no later than the node ends, once its children are done, a trailing one, and a node that
  took comments gets them as its \<^verbatim>\<open>comments\<close> property, in place of what it had there.
\<close>

text \<open>A property read that cannot throw, where the library has tested the object before.\<close>

definition field :: "js \<Rightarrow> string \<Rightarrow> js" where
  "field v k =
     (case v of
        Obj ps \<Rightarrow> (case map_of ps k of Some w \<Rightarrow> w | None \<Rightarrow> Undefined)
      | _ \<Rightarrow> Undefined)"

fun elementAt :: "js \<Rightarrow> nat \<Rightarrow> js" where
  "elementAt (Arr xs) i = (if i < length xs then xs ! i else Undefined)"
| "elementAt v i = Undefined"

text \<open>\<^verbatim>\<open>a - b\<close> on numbers, \<open>None\<close> for \<^verbatim>\<open>NaN\<close>; \<^verbatim>\<open>k in x\<close> on an object.\<close>

definition minus :: "js \<Rightarrow> js \<Rightarrow> int option" where
  "minus a b =
     (case toNumber a of
        None \<Rightarrow> None
      | Some x \<Rightarrow> (case toNumber b of None \<Rightarrow> None | Some y \<Rightarrow> Some (x - y)))"

definition hasOwn :: "js \<Rightarrow> string \<Rightarrow> bool" where
  "hasOwn v k = (case v of Obj ps \<Rightarrow> map_of ps k \<noteq> None | _ \<Rightarrow> False)"

text \<open>\<^verbatim>\<open>compare(left, right, compareEnd)\<close>: by offsets when both have a \<^verbatim>\<open>range\<close>, else by
  line and column, else by \<^verbatim>\<open>start\<close>, else \<^verbatim>\<open>NaN\<close>.\<close>

definition compare :: "js \<Rightarrow> js \<Rightarrow> bool \<Rightarrow> int option" where
  "compare left right compareEnd =
     (let fieldName = (if compareEnd then ''end'' else ''start'') in
      if truthy (field left ''range'') \<and> truthy (field right ''range'')
      then minus (elementAt (field left ''range'') 0)
                 (elementAt (field right ''range'') (if compareEnd then 1 else 0))
      else if truthy (field left ''loc'') \<and> truthy (field (field left ''loc'') ''start'')
              \<and> truthy (field right ''loc'') \<and> truthy (field (field right ''loc'') fieldName)
      then (case minus (field (field (field left ''loc'') ''start'') ''line'')
                       (field (field (field right ''loc'') fieldName) ''line'') of
              Some d \<Rightarrow>
                if d \<noteq> 0 then Some d
                else minus (field (field (field left ''loc'') ''start'') ''column'')
                           (field (field (field right ''loc'') fieldName) ''column'')
            | None \<Rightarrow>
                minus (field (field (field left ''loc'') ''start'') ''column'')
                      (field (field (field right ''loc'') fieldName) ''column''))
      else if hasOwn left ''start'' \<and> hasOwn right fieldName
      then minus (field left ''start'') (field right fieldName)
      else None)"

text \<open>\<^verbatim>\<open>xs.sort(compare)\<close>: a stable sort, an element moving behind another only when
  \<^verbatim>\<open>compare\<close> is positive.\<close>

fun insertSorted :: "('a \<Rightarrow> js) \<Rightarrow> 'a \<Rightarrow> 'a list \<Rightarrow> 'a list" where
  "insertSorted p x [] = [x]"
| "insertSorted p x (y # ys) =
     (if (case compare (p x) (p y) False of Some d \<Rightarrow> 0 < d | None \<Rightarrow> False)
      then y # insertSorted p x ys else x # y # ys)"

fun sortBy :: "('a \<Rightarrow> js) \<Rightarrow> 'a list \<Rightarrow> 'a list" where
  "sortBy p [] = []"
| "sortBy p (x # xs) = insertSorted p x (sortBy p xs)"

text \<open>\<^verbatim>\<open>node.k = v\<close>: the property keeps its place, a new one goes last.\<close>

fun setKey :: "string \<Rightarrow> js \<Rightarrow> (string \<times> js) list \<Rightarrow> (string \<times> js) list" where
  "setKey k v [] = [(k, v)]"
| "setKey k v ((k', w) # ps) = (if k' = k then (k, v) # ps else (k', w) # setKey k v ps)"

text \<open>\<^verbatim>\<open>Object.assign({}, comment, {leading, trailing})\<close>.\<close>

definition withFields :: "js \<Rightarrow> bool \<Rightarrow> bool \<Rightarrow> js" where
  "withFields comment leading trailing =
     (case comment of
        Obj ps \<Rightarrow> Obj (setKey ''trailing'' (Bool trailing) (setKey ''leading'' (Bool leading) ps))
      | _ \<Rightarrow> Obj [(''leading'', Bool leading), (''trailing'', Bool trailing)])"

text \<open>\<^verbatim>\<open>slice(state, node, compareEnd, fields)\<close>: the comments taken by the node, and those
  left in the state.\<close>

fun slice :: "js list \<Rightarrow> js \<Rightarrow> bool \<Rightarrow> bool \<Rightarrow> bool \<Rightarrow> js list \<times> js list" where
  "slice [] node compareEnd leading trailing = ([], [])"
| "slice (c # cs) node compareEnd leading trailing =
     (if truthy c \<and> (case compare c node compareEnd of Some d \<Rightarrow> d < 1 | None \<Rightarrow> False)
      then (case slice cs node compareEnd leading trailing of
              (taken, rest) \<Rightarrow> (withFields c leading trailing # taken, rest))
      else ([], c # cs))"

text \<open>A value that counts as a child: \<^verbatim>\<open>value && typeof value.type === "string"\<close>.\<close>

definition isNode :: "js \<Rightarrow> bool" where
  "isNode v = (truthy v \<and> (case field v ''type'' of Str s \<Rightarrow> True | _ \<Rightarrow> False))"

text \<open>A child is kept with its place (the property, and the index when the property is an
  array) and with its own walk, so that the children can be walked in sorted order and put
  back where they were.\<close>

fun putChild :: "nat \<times> nat option \<Rightarrow> js \<Rightarrow> (string \<times> js) list \<Rightarrow> (string \<times> js) list" where
  "putChild (i, None) child ps = (if i < length ps then ps[i := (fst (ps ! i), child)] else ps)"
| "putChild (i, Some j) child ps =
     (if i < length ps
      then (case snd (ps ! i) of
              Arr xs \<Rightarrow> ps[i := (fst (ps ! i), Arr (xs[j := child]))]
            | _ \<Rightarrow> ps)
      else ps)"

fun walkChildren ::
  "((nat \<times> nat option) \<times> js \<times> (js list \<Rightarrow> js \<times> js list)) list \<Rightarrow> (string \<times> js) list \<Rightarrow> js list
     \<Rightarrow> (string \<times> js) list \<times> js list" where
  "walkChildren [] ps cs = (ps, cs)"
| "walkChildren ((place, child, childWalk) # kids) ps cs =
     (case childWalk cs of (child', cs1) \<Rightarrow> walkChildren kids (putChild place child' ps) cs1)"

text \<open>\<^verbatim>\<open>walk(node, state)\<close>: the node and the state as the walk leaves them. The tree handed
  over is the program object; a value without properties is left as it is.\<close>

fun walk :: "js \<Rightarrow> js list \<Rightarrow> js \<times> js list"
  and childrenOf ::
    "nat \<Rightarrow> (string \<times> js) list \<Rightarrow> ((nat \<times> nat option) \<times> js \<times> (js list \<Rightarrow> js \<times> js list)) list"
  and childrenIn ::
    "nat \<Rightarrow> nat \<Rightarrow> js list \<Rightarrow> ((nat \<times> nat option) \<times> js \<times> (js list \<Rightarrow> js \<times> js list)) list" where
  "walk (Obj ps) =
     (\<lambda>cs. if cs = [] then (Obj ps, cs)
           else let children = sortBy (\<lambda>kid. fst (snd kid)) (childrenOf 0 ps) in
             (case slice cs (Obj ps) False True False of
                (before, cs1) \<Rightarrow>
                  (case walkChildren children ps cs1 of
                     (ps1, cs2) \<Rightarrow>
                       (case slice cs2 (Obj ps) True False (children \<noteq> []) of
                          (after, cs3) \<Rightarrow>
                            (if before @ after = [] then Obj ps1
                             else Obj (setKey ''comments'' (Arr (before @ after)) ps1), cs3)))))"
| "walk Undefined = (\<lambda>cs. (Undefined, cs))"
| "walk Null = (\<lambda>cs. (Null, cs))"
| "walk (Bool b) = (\<lambda>cs. (Bool b, cs))"
| "walk (Num n) = (\<lambda>cs. (Num n, cs))"
| "walk (Str s) = (\<lambda>cs. (Str s, cs))"
| "walk (Arr xs) = (\<lambda>cs. (Arr xs, cs))"
| "childrenOf i [] = []"
| "childrenOf i ((key, v) # ps) =
     (if key = ''comments'' then []
      else (case v of
              Arr xs \<Rightarrow> childrenIn i 0 xs
            | Obj qs \<Rightarrow> (if isNode v then [((i, None), v, walk v)] else [])
            | _ \<Rightarrow> []))
     @ childrenOf (Suc i) ps"
| "childrenIn i j [] = []"
| "childrenIn i j (x # xs) =
     (if isNode x then [((i, Some j), x, walk x)] else []) @ childrenIn i (Suc j) xs"

definition attachComments :: "js \<Rightarrow> js list \<Rightarrow> js" where
  "attachComments tree comments =
     (if comments = [] then tree else fst (walk tree (sortBy (\<lambda>c. c) comments)))"

section \<open>Notions the statements use\<close>

text \<open>Annotating a list of throw statements one after the other, stopping at the first error.\<close>

fun annotateAll :: "PluginOptions \<Rightarrow> (js \<Rightarrow> js list \<Rightarrow> js) \<Rightarrow> js list \<Rightarrow> js \<Rightarrow> error + js" where
  "annotateAll pluginOptions attach [] ast = Inr ast"
| "annotateAll pluginOptions attach (node # nodes) ast =
     thenE (annotateThrow pluginOptions attach node ast)
       (\<lambda>ast1. annotateAll pluginOptions attach nodes ast1)"

text \<open>Every object of a tree, in document order, whatever it is nested in; the throw
  statements of a tree are those of type \<^verbatim>\<open>ThrowStatement\<close>.\<close>

fun objects :: "js \<Rightarrow> js list"
  and objectsKeys :: "(string \<times> js) list \<Rightarrow> js list"
  and objectsItems :: "js list \<Rightarrow> js list" where
  "objects (Obj ps) = Obj ps # objectsKeys ps"
| "objects (Arr xs) = objectsItems xs"
| "objects Undefined = []"
| "objects Null = []"
| "objects (Bool b) = []"
| "objects (Num n) = []"
| "objects (Str s) = []"
| "objectsKeys [] = []"
| "objectsKeys ((key, child) # ps) = objects child @ objectsKeys ps"
| "objectsItems [] = []"
| "objectsItems (item # items) = objects item @ objectsItems items"

definition throwStatements :: "js \<Rightarrow> js list" where
  "throwStatements t = filter isThrow (objects t)"

text \<open>The throw statements the walk comes to, in its order.\<close>

fun visits :: "js \<Rightarrow> js list"
  and visitsKeys :: "(string \<times> js) list \<Rightarrow> js list"
  and visitsItems :: "js list \<Rightarrow> js list" where
  "visits (Obj ps) =
     (if map_of ps ''start'' \<noteq> None then []
      else (if isThrow (Obj ps) then [Obj ps] else []) @ visitsKeys ps)"
| "visits Undefined = []"
| "visits Null = []"
| "visits (Bool b) = []"
| "visits (Num n) = []"
| "visits (Str s) = []"
| "visits (Arr xs) = []"
| "visitsKeys [] = []"
| "visitsKeys ((key, child) # ps) =
     (case child of Arr items \<Rightarrow> visitsItems items | _ \<Rightarrow> visits child) @ visitsKeys ps"
| "visitsItems [] = []"
| "visitsItems (item # items) = visits item @ visitsItems items"

text \<open>
  A tree in which no throw statement lies where the walk does not go: none is, or is
  inside, an object with a \<^verbatim>\<open>start\<close> property, and none is inside an array that is the
  root or an element of an array.
\<close>

fun walkable :: "js \<Rightarrow> bool"
  and walkableKeys :: "(string \<times> js) list \<Rightarrow> bool"
  and walkableItems :: "js list \<Rightarrow> bool" where
  "walkable (Obj ps) =
     (if map_of ps ''start'' \<noteq> None then filter isThrow (Obj ps # objectsKeys ps) = []
      else walkableKeys ps)"
| "walkable (Arr xs) = (filter isThrow (objectsItems xs) = [])"
| "walkable Undefined = True"
| "walkable Null = True"
| "walkable (Bool b) = True"
| "walkable (Num n) = True"
| "walkable (Str s) = True"
| "walkableKeys [] = True"
| "walkableKeys ((key, child) # ps) =
     ((case child of Arr items \<Rightarrow> walkableItems items | _ \<Rightarrow> walkable child) \<and> walkableKeys ps)"
| "walkableItems [] = True"
| "walkableItems (item # items) = (walkable item \<and> walkableItems items)"

text \<open>
  The two comments as the specification describes them: block comments anchored at the throw
  statement, the one with the fixed text, the other with the names of the allowed classes
  joined by a comma and a space.
\<close>

definition highlightComment :: "js \<Rightarrow> js" where
  "highlightComment node =
     Obj [(''type'', Str ''Block''), (''value'', Str '' THROW STATEMENT ''),
          (''loc'', field node ''loc''), (''range'', field node ''range'')]"

definition warningComment :: "string list \<Rightarrow> js \<Rightarrow> js" where
  "warningComment classes node =
     Obj [(''type'', Str ''Block''),
          (''value'', Str ('' WARNING: Only throw instances of: '' @ joinWith '', '' classes @ '' '')),
          (''loc'', field node ''loc''), (''range'', field node ''range'')]"

text \<open>
  The rules of the specification for one throw statement, with enforcement on against a list
  of class names: the highlight comment when highlighting is on, then the warning comment
  when the statement is classified as disallowed, each unless the duplicate check finds it;
  and the rules applied to a list of throw statements, one after the other.
\<close>

definition annotateAsSpecified ::
  "bool \<Rightarrow> string list \<Rightarrow> (js \<Rightarrow> js list \<Rightarrow> js) \<Rightarrow> js \<Rightarrow> js \<Rightarrow> error + js" where
  "annotateAsSpecified highlight classes attach node ast =
     thenE (if highlight then attachUnlessPresent attach (highlightComment node) ast else Inr ast)
       (\<lambda>ast1. thenE (isAllowedErrorClass node (Arr (map Str classes)))
          (\<lambda>allowed. if allowed then Inr ast1
                     else attachUnlessPresent attach (warningComment classes node) ast1))"


text \<open>A comment as the parser lists it: a start line that is a number and a text.\<close>

definition wellFormedComment :: "js \<Rightarrow> bool" where
  "wellFormedComment c = (\<exists>l v. startLine c = Inr (Num l) \<and> getProp c ''value'' = Inr (Str v))"

section \<open>Sample inputs\<close>

text \<open>
  Inputs on which statements are run: a decoder that agrees with \<^verbatim>\<open>JSON.parse\<close> on the
  texts it knows and rejects every other text, and a matcher in which \<^verbatim>\<open>**\<close> matches every
  path and any other pattern matches the path equal to it.
\<close>

definition parseSample :: "string \<Rightarrow> js option" where
  "parseSample s =
     (if s = ''[]'' then Some (Arr [])
      else if s = ''[\"A\",\"B\"]'' then Some (Arr [Str ''A'', Str ''B''])
      else if s = ''[\"**\"]'' then Some (Arr [Str ''**''])
      else if s = ''[\"lib.ts\"]'' then Some (Arr [Str ''lib.ts''])
      else if s = ''5'' then Some (Num 5)
      else if s = ''\"FooBar\"'' then Some (Str ''FooBar'')
      else None)"

definition globSample :: "string \<Rightarrow> string \<Rightarrow> bool" where
  "globSample pattern path = (pattern = ''**'' \<or> pattern = path)"

text \<open>
  Source positions: line \<open>l\<close> of a sample file takes the offsets \<open>10 l\<close> to \<open>10 l + 9\<close>. The
  statements \<^verbatim>\<open>throw err\<close>, \<^verbatim>\<open>throw new Foo()\<close> and \<^verbatim>\<open>throw "boom"\<close> stand on one line;
  their expressions are written without positions, which nothing here reads.
\<close>

definition locAt :: "int \<Rightarrow> js" where
  "locAt l =
     Obj [(''start'', Obj [(''line'', Num l), (''column'', Num 0)]),
          (''end'', Obj [(''line'', Num l), (''column'', Num 9)])]"

definition throwOf :: "js \<Rightarrow> int \<Rightarrow> js" where
  "throwOf arg l =
     Obj [(''type'', Str ''ThrowStatement''), (''argument'', arg),
          (''loc'', locAt l), (''range'', Arr [Num (10 * l), Num (10 * l + 9)])]"

definition identifierOf :: "string \<Rightarrow> js" where
  "identifierOf n = Obj [(''type'', Str ''Identifier''), (''name'', Str n)]"

definition newOf :: "string \<Rightarrow> js" where
  "newOf n = Obj [(''type'', Str ''NewExpression''), (''callee'', identifierOf n), (''arguments'', Arr [])]"

definition literal :: "string \<Rightarrow> js" where
  "literal s = Obj [(''type'', Str ''Literal''), (''value'', Str s)]"

text \<open>The program object: as in the parser's trees it reaches from the first statement to
  the end of the last, so a comment above the first statement lies before it.\<close>

definition programRange :: "js list \<Rightarrow> js" where
  "programRange body =
     (case body of
        [] \<Rightarrow> Arr [Num 0, Num 0]
      | head # others \<Rightarrow>
          Arr [elementAt (field head ''range'') 0,
               elementAt (field (last (head # others)) ''range'') 1])"

definition program :: "js list \<Rightarrow> js list \<Rightarrow> js" where
  "program body comments =
     Obj [(''type'', Str ''Program''), (''range'', programRange body), (''body'', Arr body),
          (''comments'', Arr comments)]"

definition enforcing :: "string list \<Rightarrow> PluginOptions" where
  "enforcing classes =
     \<lparr> pHighlightThrows = Bool False,
       pAllowedErrorClasses = Arr (map Str classes),
       pEnforceAllowedClasses = Bool True,
       pInclude = Arr [],
       pExclude = Arr [] \<rparr>"

definition highlighting :: PluginOptions where
  "highlighting = defaultOptions\<lparr>pHighlightThrows := Bool True\<rparr>"

text \<open>A block comment on a line, and a statement of some kind that reaches from one line to
  another.\<close>

definition commentAt :: "string \<Rightarrow> int \<Rightarrow> js" where
  "commentAt text l =
     Obj [(''type'', Str ''Block''), (''value'', Str text), (''loc'', locAt l),
          (''range'', Arr [Num (10 * l), Num (10 * l + 9)])]"

definition statement :: "string \<Rightarrow> int \<Rightarrow> int \<Rightarrow> (string \<times> js) list \<Rightarrow> js" where
  "statement kind a b parts =
     Obj ((''type'', Str kind) # parts @
          [(''loc'', Obj [(''start'', Obj [(''line'', Num a), (''column'', Num 0)]),
                         (''end'', Obj [(''line'', Num b), (''column'', Num 9)])]),
           (''range'', Arr [Num (10 * a), Num (10 * b + 9)])])"

definition block :: "int \<Rightarrow> int \<Rightarrow> js list \<Rightarrow> js" where
  "block a b body = statement ''BlockStatement'' a b [(''body'', Arr body)]"

text \<open>
  A file with throw statements at several depths:
  \<^verbatim>\<open>if (x) {\<close>, \<^verbatim>\<open>throw e\<close> (line 2), \<^verbatim>\<open>}\<close>;
  \<^verbatim>\<open>try {}\<close>, \<^verbatim>\<open>catch (e) {\<close>, \<^verbatim>\<open>throw new Foo()\<close> (line 6), \<^verbatim>\<open>}\<close>;
  \<^verbatim>\<open>function f() {\<close>, \<^verbatim>\<open>while (y) {\<close>, \<^verbatim>\<open>throw "boom"\<close> (line 11), \<^verbatim>\<open>}\<close>, \<^verbatim>\<open>}\<close>.
\<close>

definition ifPart :: "js list \<Rightarrow> js" where
  "ifPart body =
     statement ''IfStatement'' 1 3
       [(''test'', identifierOf ''x''), (''consequent'', block 1 3 body), (''alternate'', Null)]"

definition tryPart :: "js list \<Rightarrow> js" where
  "tryPart body =
     statement ''TryStatement'' 4 8
       [(''block'', block 4 4 []),
        (''handler'',
           statement ''CatchClause'' 5 8 [(''param'', identifierOf ''e''), (''body'', block 5 8 body)]),
        (''finalizer'', Null)]"

definition functionPart :: "js list \<Rightarrow> js" where
  "functionPart body =
     statement ''FunctionDeclaration'' 9 13
       [(''id'', identifierOf ''f''), (''params'', Arr []),
        (''body'',
           block 9 13
             [statement ''WhileStatement'' 10 12
                [(''test'', identifierOf ''y''), (''body'', block 10 12 body)]])]"

definition nested :: js where
  "nested =
     program
       [ifPart [throwOf (identifierOf ''e'') 2],
        tryPart [throwOf (newOf ''Foo'') 6],
        functionPart [throwOf (literal ''boom'') 11]]
       []"

text \<open>
  The output the project's documentation shows for \<^verbatim>\<open>highlightThrows\<close> and
  \<^verbatim>\<open>enforceAllowedClasses\<close> with \<^verbatim>\<open>allowedErrorClasses: ["Error"]\<close>, as a file that is read
  again: inside \<^verbatim>\<open>if (x) {\<close> the warning comment on line 2, the highlight comment on line 3
  and \<^verbatim>\<open>throw new InvalidDataError()\<close> on line 4.
\<close>

definition documentedWith :: "js \<Rightarrow> js" where
  "documentedWith throwStatement =
     program
       [statement ''IfStatement'' 1 5
          [(''test'', identifierOf ''x''),
           (''consequent'', block 1 5 [throwStatement]),
           (''alternate'', Null)]]
       [commentAt '' WARNING: Only throw instances of: Error '' 2,
        commentAt '' THROW STATEMENT '' 3]"

definition documented :: js where
  "documented = documentedWith (throwOf (newOf ''InvalidDataError'') 4)"

text \<open>A node with a list of comments as its \<^verbatim>\<open>comments\<close> property, and a comment marked as
  a leading one.\<close>

definition commented :: "js \<Rightarrow> js list \<Rightarrow> js" where
  "commented node comments =
     (case node of Obj ps \<Rightarrow> Obj (setKey ''comments'' (Arr comments) ps) | _ \<Rightarrow> node)"

definition leadingComment :: "js \<Rightarrow> js" where
  "leadingComment comment = withFields comment True False"

text \<open>The options as the host hands them over: the two flags, and the three lists as text.\<close>

definition hostOptions :: "bool \<Rightarrow> bool \<Rightarrow> string \<Rightarrow> string \<Rightarrow> string \<Rightarrow> ThrowErrorOptions" where
  "hostOptions highlight enforce allowed inc exc =
     \<lparr> oHighlightThrows = Some (Bool highlight),
       oAllowedErrorClasses = Some (Str allowed),
       oEnforceAllowedClasses = Some (Bool enforce),
       oInclude = Some (Str inc),
       oExclude = Some (Str exc) \<rparr>"

section \<open>Facts about decoding\<close>

lemma decodeField_text:
  "decodeField parse (Some (Str s)) =
     (case parse s of None \<Rightarrow> Inl SyntaxError | Some w \<Rightarrow> Inr (Some w))"
  by (simp add: decodeField_def)

lemma decodeField_Inl:
  "decodeField parse v = Inl e \<Longrightarrow> e = SyntaxError \<and> (\<exists>s. v = Some (Str s) \<and> parse s = None)"
  by (auto simp add: decodeField_def split: option.splits js.splits)

lemma decodeField_Inr:
  "decodeField parse v = Inr w \<Longrightarrow>
     (\<exists>s. v = Some (Str s) \<and> parse s = w \<and> w \<noteq> None) \<or> ((\<forall>s. v \<noteq> Some (Str s)) \<and> w = v)"
  by (auto simp add: decodeField_def eq_commute [of "Some _" "parse _"]
      split: option.splits js.splits)

lemma normalize_fails:
  assumes "(\<exists>s. oInclude options = Some (Str s) \<and> parse s = None)
         \<or> (\<exists>s. oExclude options = Some (Str s) \<and> parse s = None)
         \<or> (\<exists>s. oAllowedErrorClasses options = Some (Str s) \<and> parse s = None)"
  shows "snd (normalizeOptions parse options) = Inl SyntaxError"
  using assms
  by (auto simp add: normalizeOptions_def Let_def decodeField_text
      split: sum.splits option.splits dest!: decodeField_Inl decodeField_Inr)


lemma process_normalize_fails:
  "snd (normalizeOptions parse options) = Inl e \<Longrightarrow>
     snd (processThrowStatements parse glob attach ast options filePath) = Inl e"
  by (cases "normalizeOptions parse options") (simp add: processThrowStatements_def)

section \<open>Re-thrown identifiers\<close>

text \<open>
  Claim C4. A throw statement whose argument is a bare identifier is classified as allowed
  whatever \<^verbatim>\<open>allowedErrorClasses\<close> holds (a list or not), and the enforcement rule leaves the
  tree as it is, for every configuration, so also when \<^verbatim>\<open>enforceAllowedClasses\<close> is true.
\<close>

theorem bare_identifier_allowed:
  assumes "map_of ps ''argument'' = Some (Obj aps)"
    and "map_of aps ''type'' = Some (Str ''Identifier'')"
  shows "isAllowedErrorClass (Obj ps) allowedClasses = Inr True
       \<and> enforceThrow pluginOptions attach (Obj ps) ast = Inr ast"
  using assms
  by (simp add: isAllowedErrorClass_def enforceThrow_def newExpressionName_def thenE_def)

theorem bare_identifier_allowed_witness:
  "map_of [(''type'', Str ''ThrowStatement''), (''argument'', identifierOf ''err'')] ''argument''
     = Some (Obj [(''type'', Str ''Identifier''), (''name'', Str ''err'')])
   \<and> map_of [(''type'', Str ''Identifier''), (''name'', Str ''err'')] ''type'' = Some (Str ''Identifier'')
   \<and> isAllowedErrorClass (Obj [(''type'', Str ''ThrowStatement''), (''argument'', identifierOf ''err'')])
        (Arr [Str ''Foo'']) = Inr True
   \<and> enforceThrow (enforcing [''Foo'']) attachComments
        (Obj [(''type'', Str ''ThrowStatement''), (''argument'', identifierOf ''err'')])
        (program [] []) = Inr (program [] [])"
  using bare_identifier_allowed
    [of "[(''type'', Str ''ThrowStatement''), (''argument'', identifierOf ''err'')]"
        "[(''type'', Str ''Identifier''), (''name'', Str ''err'')]"
        "Arr [Str ''Foo'']" "enforcing [''Foo'']" attachComments "program [] []"]
  by (simp add: identifierOf_def)

section \<open>Rejected files\<close>

text \<open>
  Claim C6. When the options decode and the filter rejects the file (the path is not
  included, or it is excluded), the call resolves to the tree it was given. This holds for
  every comment service, so the walk, the only caller of that service, has not run.
\<close>

theorem rejected_file_untouched:
  assumes "normalizeOptions parse options = (options', Inr pluginOptions)"
    and "shouldInclude glob pluginOptions filePath = Inr inc"
    and "shouldExclude glob pluginOptions filePath = Inr exc"
    and "\<not> inc \<or> exc"
  shows "processThrowStatements parse glob attach ast options filePath = (options', Inr ast)"
  using assms by (auto simp add: processThrowStatements_def thenE_def)

theorem rejected_file_untouched_witness:
  "processThrowStatements parseSample globSample attachComments
     (program [throwOf (literal ''boom'') 2] [])
     (hostOptions True True ''[]'' ''[\"**\"]'' ''[\"lib.ts\"]'') ''lib.ts''
   = (\<lparr> oHighlightThrows = Some (Bool True), oAllowedErrorClasses = Some (Arr []),
        oEnforceAllowedClasses = Some (Bool True), oInclude = Some (Arr [Str ''**'']),
        oExclude = Some (Arr [Str ''lib.ts'']) \<rparr>,
      Inr (program [throwOf (literal ''boom'') 2] []))"
proof -
  let ?o = "\<lparr> oHighlightThrows = Some (Bool True), oAllowedErrorClasses = Some (Arr []),
        oEnforceAllowedClasses = Some (Bool True), oInclude = Some (Arr [Str ''**'']),
        oExclude = Some (Arr [Str ''lib.ts'']) \<rparr>"
  have n: "normalizeOptions parseSample (hostOptions True True ''[]'' ''[\"**\"]'' ''[\"lib.ts\"]'')
           = (?o, Inr (spread defaultOptions ?o))"
    by (simp add: normalizeOptions_def hostOptions_def decodeField_def parseSample_def Let_def)
  have i: "shouldInclude globSample (spread defaultOptions ?o) ''lib.ts'' = Inr True"
    by (simp add: shouldInclude_def spread_def spreadField_def isMatch_def globSample_def)
  have e: "shouldExclude globSample (spread defaultOptions ?o) ''lib.ts'' = Inr True"
    by (simp add: shouldExclude_def spread_def spreadField_def isMatch_def globSample_def)
  show ?thesis using rejected_file_untouched [OF n i e] by simp
qed

section \<open>Decoding of the list options\<close>




section \<open>Decoding comes before the filter\<close>

text \<open>
  Claim C10. When the text of \<^verbatim>\<open>include\<close>, \<^verbatim>\<open>exclude\<close> or \<^verbatim>\<open>allowedErrorClasses\<close> is
  rejected by \<^verbatim>\<open>JSON.parse\<close>, the call fails with the \<^verbatim>\<open>SyntaxError\<close> for every path and
  every matcher: a file the filter would reject does not get its tree back.
\<close>

theorem decode_error_before_filter:
  assumes "(\<exists>s. oInclude options = Some (Str s) \<and> parse s = None)
         \<or> (\<exists>s. oExclude options = Some (Str s) \<and> parse s = None)
         \<or> (\<exists>s. oAllowedErrorClasses options = Some (Str s) \<and> parse s = None)"
  shows "snd (processThrowStatements parse glob attach ast options filePath) = Inl SyntaxError
       \<and> snd (processThrowStatements parse glob attach ast options filePath) \<noteq> Inr ast"
  using process_normalize_fails [OF normalize_fails [OF assms]] by simp

text \<open>The path \<^verbatim>\<open>lib.ts\<close> is excluded by \<^verbatim>\<open>["lib.ts"]\<close>, and with a well-formed
  \<^verbatim>\<open>allowedErrorClasses\<close> the tree comes back; with a malformed one the call fails.\<close>

theorem decode_error_before_filter_witness:
  "snd (processThrowStatements parseSample globSample attachComments (program [] [])
          (hostOptions True True ''[]'' ''[\"**\"]'' ''[\"lib.ts\"]'') ''lib.ts'') = Inr (program [] [])
   \<and> (\<exists>s. oAllowedErrorClasses (hostOptions True True ''not json'' ''[\"**\"]'' ''[\"lib.ts\"]'') = Some (Str s)
          \<and> parseSample s = None)
   \<and> snd (processThrowStatements parseSample globSample attachComments (program [] [])
          (hostOptions True True ''not json'' ''[\"**\"]'' ''[\"lib.ts\"]'') ''lib.ts'') = Inl SyntaxError"
proof -
  have b: "\<exists>s. oAllowedErrorClasses (hostOptions True True ''not json'' ''[\"**\"]'' ''[\"lib.ts\"]'') = Some (Str s)
          \<and> parseSample s = None"
    by (simp add: hostOptions_def parseSample_def)
  have g: "snd (processThrowStatements parseSample globSample attachComments (program [] [])
          (hostOptions True True ''[]'' ''[\"**\"]'' ''[\"lib.ts\"]'') ''lib.ts'') = Inr (program [] [])"
    by (simp add: processThrowStatements_def normalizeOptions_def hostOptions_def decodeField_def
        parseSample_def Let_def spread_def spreadField_def defaultOptions_def shouldInclude_def
        shouldExclude_def isMatch_def globSample_def thenE_def)
  show ?thesis
    using decode_error_before_filter [of "hostOptions True True ''not json'' ''[\"**\"]'' ''[\"lib.ts\"]''"
        parseSample globSample attachComments "program [] []" "''lib.ts''"] b g
    by blast
qed

section \<open>The caller's options object\<close>

text \<open>
  Claim C9, as stated: normalization does not modify the options object it is given. It does:
  the host's object holds the text \<^verbatim>\<open>[]\<close> under \<^verbatim>\<open>include\<close> before the call and the empty
  list after it.
\<close>

theorem options_object_modified:
  "fst (normalizeOptions parseSample (hostOptions False False ''[]'' ''[]'' ''[]''))
     \<noteq> hostOptions False False ''[]'' ''[]'' ''[]''"
  by (simp add: normalizeOptions_def hostOptions_def decodeField_def parseSample_def Let_def)

lemma written_back_on_success:
  "snd (normalizeOptions parse options) = Inr cfg \<Longrightarrow>
     (\<forall>s. oInclude options = Some (Str s) \<longrightarrow>
        oInclude (fst (normalizeOptions parse options)) = parse s)
   \<and> (\<forall>s. oExclude options = Some (Str s) \<longrightarrow>
        oExclude (fst (normalizeOptions parse options)) = parse s)
   \<and> (\<forall>s. oAllowedErrorClasses options = Some (Str s) \<longrightarrow>
        oAllowedErrorClasses (fst (normalizeOptions parse options)) = parse s)"
  by (auto simp add: normalizeOptions_def Let_def decodeField_text split: sum.splits option.splits)

lemma untouched_without_text:
  "(\<forall>s. oInclude options \<noteq> Some (Str s)) \<and> (\<forall>s. oExclude options \<noteq> Some (Str s))
     \<and> (\<forall>s. oAllowedErrorClasses options \<noteq> Some (Str s)) \<Longrightarrow>
   fst (normalizeOptions parse options) = options"
  by (auto simp add: normalizeOptions_def Let_def split: sum.splits
      dest!: decodeField_Inr decodeField_Inl)

text \<open>
  Claim C9, amended. Normalization writes into the caller's options object, and only this:
  each of \<^verbatim>\<open>include\<close>, \<^verbatim>\<open>exclude\<close> and \<^verbatim>\<open>allowedErrorClasses\<close> is either as it was or was a
  text and now holds its decoded value, and when the options decode every textual one holds
  its decoded value; \<^verbatim>\<open>highlightThrows\<close> and \<^verbatim>\<open>enforceAllowedClasses\<close> are never written; an
  object with no textual list option is left as it was.
\<close>

theorem options_written_back:
  "oHighlightThrows (fst (normalizeOptions parse options)) = oHighlightThrows options
   \<and> oEnforceAllowedClasses (fst (normalizeOptions parse options)) = oEnforceAllowedClasses options
   \<and> (oInclude (fst (normalizeOptions parse options)) = oInclude options
        \<or> (\<exists>s. oInclude options = Some (Str s) \<and> parse s \<noteq> None
              \<and> oInclude (fst (normalizeOptions parse options)) = parse s))
   \<and> (oExclude (fst (normalizeOptions parse options)) = oExclude options
        \<or> (\<exists>s. oExclude options = Some (Str s) \<and> parse s \<noteq> None
              \<and> oExclude (fst (normalizeOptions parse options)) = parse s))
   \<and> (oAllowedErrorClasses (fst (normalizeOptions parse options)) = oAllowedErrorClasses options
        \<or> (\<exists>s. oAllowedErrorClasses options = Some (Str s) \<and> parse s \<noteq> None
              \<and> oAllowedErrorClasses (fst (normalizeOptions parse options)) = parse s))
   \<and> (snd (normalizeOptions parse options) = Inr cfg \<longrightarrow>
         (\<forall>s. oInclude options = Some (Str s) \<longrightarrow>
            oInclude (fst (normalizeOptions parse options)) = parse s)
       \<and> (\<forall>s. oExclude options = Some (Str s) \<longrightarrow>
            oExclude (fst (normalizeOptions parse options)) = parse s)
       \<and> (\<forall>s. oAllowedErrorClasses options = Some (Str s) \<longrightarrow>
            oAllowedErrorClasses (fst (normalizeOptions parse options)) = parse s))
   \<and> ((\<forall>s. oInclude options \<noteq> Some (Str s)) \<and> (\<forall>s. oExclude options \<noteq> Some (Str s))
         \<and> (\<forall>s. oAllowedErrorClasses options \<noteq> Some (Str s)) \<longrightarrow>
       fst (normalizeOptions parse options) = options)"
proof (intro conjI)
  show "oHighlightThrows (fst (normalizeOptions parse options)) = oHighlightThrows options"
    by (simp add: normalizeOptions_def Let_def split: sum.splits)
  show "oEnforceAllowedClasses (fst (normalizeOptions parse options)) = oEnforceAllowedClasses options"
    by (simp add: normalizeOptions_def Let_def split: sum.splits)
  show "oInclude (fst (normalizeOptions parse options)) = oInclude options
        \<or> (\<exists>s. oInclude options = Some (Str s) \<and> parse s \<noteq> None
              \<and> oInclude (fst (normalizeOptions parse options)) = parse s)"
    by (auto simp add: normalizeOptions_def Let_def split: sum.splits dest!: decodeField_Inr)
  show "oExclude (fst (normalizeOptions parse options)) = oExclude options
        \<or> (\<exists>s. oExclude options = Some (Str s) \<and> parse s \<noteq> None
              \<and> oExclude (fst (normalizeOptions parse options)) = parse s)"
    by (auto simp add: normalizeOptions_def Let_def split: sum.splits dest!: decodeField_Inr)
  show "oAllowedErrorClasses (fst (normalizeOptions parse options)) = oAllowedErrorClasses options
        \<or> (\<exists>s. oAllowedErrorClasses options = Some (Str s) \<and> parse s \<noteq> None
              \<and> oAllowedErrorClasses (fst (normalizeOptions parse options)) = parse s)"
    by (auto simp add: normalizeOptions_def Let_def split: sum.splits dest!: decodeField_Inr)
  show "snd (normalizeOptions parse options) = Inr cfg \<longrightarrow>
         (\<forall>s. oInclude options = Some (Str s) \<longrightarrow>
            oInclude (fst (normalizeOptions parse options)) = parse s)
       \<and> (\<forall>s. oExclude options = Some (Str s) \<longrightarrow>
            oExclude (fst (normalizeOptions parse options)) = parse s)
       \<and> (\<forall>s. oAllowedErrorClasses options = Some (Str s) \<longrightarrow>
            oAllowedErrorClasses (fst (normalizeOptions parse options)) = parse s)"
    using written_back_on_success [of parse options cfg] by blast
  show "(\<forall>s. oInclude options \<noteq> Some (Str s)) \<and> (\<forall>s. oExclude options \<noteq> Some (Str s))
         \<and> (\<forall>s. oAllowedErrorClasses options \<noteq> Some (Str s)) \<longrightarrow>
       fst (normalizeOptions parse options) = options"
    using untouched_without_text [of options parse] by blast
qed

theorem options_written_back_witness:
  "snd (normalizeOptions parseSample (hostOptions False True ''[\"A\",\"B\"]'' ''[\"**\"]'' ''[]''))
     = Inr (enforcing [''A'', ''B''] \<lparr> pInclude := Arr [Str ''**''] \<rparr>)
   \<and> oAllowedErrorClasses
        (fst (normalizeOptions parseSample (hostOptions False True ''[\"A\",\"B\"]'' ''[\"**\"]'' ''[]'')))
     = Some (Arr [Str ''A'', Str ''B''])
   \<and> fst (normalizeOptions parseSample
        \<lparr> oHighlightThrows = Some (Bool True), oAllowedErrorClasses = Some (Arr [Str ''A'']),
          oEnforceAllowedClasses = None, oInclude = None, oExclude = Some (Arr []) \<rparr>)
     = \<lparr> oHighlightThrows = Some (Bool True), oAllowedErrorClasses = Some (Arr [Str ''A'']),
         oEnforceAllowedClasses = None, oInclude = None, oExclude = Some (Arr []) \<rparr>"
proof -
  let ?text = "hostOptions False True ''[\"A\",\"B\"]'' ''[\"**\"]'' ''[]''"
  let ?cfg = "enforcing [''A'', ''B''] \<lparr> pInclude := Arr [Str ''**''] \<rparr>"
  let ?list = "\<lparr> oHighlightThrows = Some (Bool True), oAllowedErrorClasses = Some (Arr [Str ''A'']),
          oEnforceAllowedClasses = None, oInclude = None, oExclude = Some (Arr []) \<rparr>"
  have t: "snd (normalizeOptions parseSample ?text) = Inr ?cfg"
    by (simp add: normalizeOptions_def hostOptions_def decodeField_def parseSample_def Let_def
        spread_def spreadField_def defaultOptions_def enforcing_def)
  have a: "oAllowedErrorClasses ?text = Some (Str ''[\"A\",\"B\"]'')"
    by (simp add: hostOptions_def)
  have n: "(\<forall>s. oInclude ?list \<noteq> Some (Str s)) \<and> (\<forall>s. oExclude ?list \<noteq> Some (Str s))
         \<and> (\<forall>s. oAllowedErrorClasses ?list \<noteq> Some (Str s))"
    by simp
  have w: "oAllowedErrorClasses (fst (normalizeOptions parseSample ?text)) = parseSample ''[\"A\",\"B\"]''"
    using options_written_back [of parseSample ?text ?cfg] t a by blast
  have u: "fst (normalizeOptions parseSample ?list) = ?list"
    using options_written_back [of parseSample ?list] n by blast
  show ?thesis using t w u by (simp add: parseSample_def)
qed

section \<open>The file filter\<close>

lemma patternsOk_strings: "[] \<notin> set ps \<Longrightarrow> patternsOk (Arr (map Str ps))"
  by (induction ps) auto

lemma matchesAny_strings:
  "matchesAny glob path (Arr (map Str ps)) = (\<exists>p \<in> set ps. glob p path)"
  by (induction ps) auto

text \<open>On lists of non-empty patterns the filter lets a file through exactly when the path
  matches a pattern of \<^verbatim>\<open>include\<close> and none of \<^verbatim>\<open>exclude\<close>.\<close>

lemma filter_on_pattern_lists:
  assumes "pInclude cfg = Arr (map Str incl)" and "pExclude cfg = Arr (map Str excl)"
    and "[] \<notin> set incl" and "[] \<notin> set excl"
  shows "shouldInclude glob cfg path = Inr (\<exists>p \<in> set incl. glob p path)"
    and "shouldExclude glob cfg path = Inr (\<exists>p \<in> set excl. glob p path)"
  using assms
  by (simp_all add: shouldInclude_def shouldExclude_def isMatch_def patternsOk_strings
      matchesAny_strings del: patternsOk.simps matchesAny.simps)

section \<open>The walk as a sequence of annotations\<close>

lemma thenE_Inr [simp]: "thenE (Inr x) f = f x"
  by (simp add: thenE_def)

lemma thenE_Inl [simp]: "thenE (Inl e) f = Inl e"
  by (simp add: thenE_def)

lemma annotateAll_append:
  "annotateAll cfg att (xs @ ys) ast =
     thenE (annotateAll cfg att xs ast) (\<lambda>a. annotateAll cfg att ys a)"
  by (induction xs arbitrary: ast) (auto simp add: thenE_def split: sum.splits)

text \<open>The definitions to unfold when a statement is run on a sample input.\<close>

lemmas run_defs =
  program_def programRange_def throwOf_def newOf_def identifierOf_def literal_def locAt_def
  commentAt_def statement_def block_def ifPart_def tryPart_def functionPart_def nested_def
  documentedWith_def documented_def commented_def leadingComment_def
  highlighting_def enforcing_def defaultOptions_def
  isThrow_def annotateThrow_def highlightThrow_def enforceThrow_def blockComment_def
  attachUnlessPresent_def hasComment_def sameComment_def startLine_def minusOne_def
  isAllowedErrorClass_def newExpressionName_def highlightText_def warningText_def
  highlightComment_def warningComment_def annotateAsSpecified_def
  field_def minus_def hasOwn_def compare_def isNode_def withFields_def attachComments_def

text \<open>The walk does nothing but annotate, in order, the throw statements it comes to.\<close>

lemma traverse_visits:
  "traverse cfg att t ast = annotateAll cfg att (visits t) ast"
  "traverseKeys cfg att ps ast = annotateAll cfg att (visitsKeys ps) ast"
  "traverseItems cfg att xs ast = annotateAll cfg att (visitsItems xs) ast"
proof (induction cfg att t ast and cfg att ps ast and cfg att xs ast
       rule: traverse_traverseKeys_traverseItems.induct)
  case (1 pluginOptions attach ps ast)
  then show ?case
    by (cases "annotateThrow pluginOptions attach (Obj ps) ast") (auto simp add: annotateAll_append)
next
  case (9 pluginOptions attach key child ps ast)
  then show ?case
    by (cases child) (auto simp add: annotateAll_append thenE_def split: sum.splits)
next
  case (11 pluginOptions attach item items ast)
  then show ?case
    by (auto simp add: annotateAll_append thenE_def split: sum.splits)
qed simp_all

lemma visits_walkable:
  "walkable t \<Longrightarrow> visits t = filter isThrow (objects t)"
  "walkableKeys ps \<Longrightarrow> visitsKeys ps = filter isThrow (objectsKeys ps)"
  "walkableItems xs \<Longrightarrow> visitsItems xs = filter isThrow (objectsItems xs)"
proof (induction t and ps and xs rule: visits_visitsKeys_visitsItems.induct)
  case (9 key child ps)
  then show ?case by (cases child) (auto split: if_splits)
qed (auto split: if_splits)

text \<open>
  Claim C5. The walk leaves aside an object with a \<^verbatim>\<open>start\<close> property and an array that is
  the root or an element of an array. The trees of the parser the plugin wraps have positions
  under \<^verbatim>\<open>loc\<close> and \<^verbatim>\<open>range\<close>: there the objects with a \<^verbatim>\<open>start\<close> property are the
  \<^verbatim>\<open>loc\<close> values, and no array holds an array, so no throw statement lies in what is left
  aside. On such a tree the walk is the annotation of the throw statements of the tree, each
  taken once, in document order, at any depth.
\<close>

theorem walk_takes_each_throw_once:
  assumes "walkable t"
  shows "traverse cfg attach t ast = annotateAll cfg attach (throwStatements t) ast"
  using assms by (simp add: traverse_visits visits_walkable throwStatements_def)

theorem walk_takes_each_throw_once_witness:
  "walkable nested
   \<and> throwStatements nested
       = [throwOf (identifierOf ''e'') 2, throwOf (newOf ''Foo'') 6, throwOf (literal ''boom'') 11]
   \<and> traverse highlighting attachComments nested nested
       = annotateAll highlighting attachComments
           [throwOf (identifierOf ''e'') 2, throwOf (newOf ''Foo'') 6, throwOf (literal ''boom'') 11]
           nested"
proof -
  have w: "walkable nested"
    by code_simp
  have t: "throwStatements nested
             = [throwOf (identifierOf ''e'') 2, throwOf (newOf ''Foo'') 6,
                throwOf (literal ''boom'') 11]"
    by code_simp
  show ?thesis
    using walk_takes_each_throw_once [OF w, of highlighting attachComments nested] w t
    by (simp only: simp_thms)
qed

section \<open>The empty include list\<close>

text \<open>
  Claim C1 says that with an empty \<^verbatim>\<open>include\<close> list every file is processed. The empty list
  is truthy, so \<^verbatim>\<open>pluginOptions.include ? micromatch.isMatch(...) : true\<close> asks the matcher,
  and no path matches an empty list of patterns. With \<^verbatim>\<open>include: "[]"\<close>, nothing excluded
  and \<^verbatim>\<open>highlightThrows\<close> on, the file \<^verbatim>\<open>app.ts\<close> holding \<^verbatim>\<open>throw new Error()\<close> comes back
  without a comment; the walk on that tree would add one, and with \<^verbatim>\<open>include: ["**"]\<close> the
  call does.
\<close>

theorem empty_include_skips_file:
  "snd (processThrowStatements parseSample globSample attachComments
          (program [throwOf (newOf ''Error'') 2] [])
          (hostOptions True False ''[]'' ''[]'' ''[]'') ''app.ts'')
     = Inr (program [throwOf (newOf ''Error'') 2] [])
   \<and> traverse highlighting attachComments
        (program [throwOf (newOf ''Error'') 2] []) (program [throwOf (newOf ''Error'') 2] [])
     = Inr (program [throwOf (newOf ''Error'') 2]
              [leadingComment (commentAt '' THROW STATEMENT '' 2)])
   \<and> snd (processThrowStatements parseSample globSample attachComments
          (program [throwOf (newOf ''Error'') 2] [])
          (hostOptions True False ''[]'' ''[\"**\"]'' ''[]'') ''app.ts'')
     = Inr (program [throwOf (newOf ''Error'') 2]
              [leadingComment (commentAt '' THROW STATEMENT '' 2)])"
proof (intro conjI)
  show "snd (processThrowStatements parseSample globSample attachComments
          (program [throwOf (newOf ''Error'') 2] [])
          (hostOptions True False ''[]'' ''[]'' ''[]'') ''app.ts'')
     = Inr (program [throwOf (newOf ''Error'') 2] [])"
    by code_simp
  show "traverse highlighting attachComments
        (program [throwOf (newOf ''Error'') 2] []) (program [throwOf (newOf ''Error'') 2] [])
     = Inr (program [throwOf (newOf ''Error'') 2]
              [leadingComment (commentAt '' THROW STATEMENT '' 2)])"
    by code_simp
  show "snd (processThrowStatements parseSample globSample attachComments
          (program [throwOf (newOf ''Error'') 2] [])
          (hostOptions True False ''[]'' ''[\"**\"]'' ''[]'') ''app.ts'')
     = Inr (program [throwOf (newOf ''Error'') 2]
              [leadingComment (commentAt '' THROW STATEMENT '' 2)])"
    by code_simp
qed

text \<open>So the call with the empty \<^verbatim>\<open>include\<close> list does not return what the walk makes of the
  tree.\<close>

theorem empty_include_skips_file_witness:
  "snd (processThrowStatements parseSample globSample attachComments
          (program [throwOf (newOf ''Error'') 2] [])
          (hostOptions True False ''[]'' ''[]'' ''[]'') ''app.ts'')
     \<noteq> traverse highlighting attachComments
         (program [throwOf (newOf ''Error'') 2] []) (program [throwOf (newOf ''Error'') 2] [])"
  using empty_include_skips_file by (simp add: program_def leadingComment_def withFields_def)

section \<open>What the pass changes in the tree\<close>

lemma attachUnlessPresent_cases:
  "attachUnlessPresent attach c ast = Inr ast' \<Longrightarrow> ast' = ast \<or> ast' = attach ast [c]"
  by (auto simp add: attachUnlessPresent_def thenE_def split: sum.splits if_splits)

text \<open>The plugin changes the tree through the comment service alone: whatever the service
  leaves unchanged in the tree, the walk leaves unchanged.\<close>

lemma annotateThrow_preserves:
  assumes "\<And>a c. f (attach a [c]) = f a"
    and "annotateThrow cfg attach node ast = Inr ast'"
  shows "f ast' = f ast"
proof -
  from assms(2) obtain ast1 where h: "highlightThrow cfg attach node ast = Inr ast1"
    and e: "enforceThrow cfg attach node ast1 = Inr ast'"
    by (auto simp add: annotateThrow_def thenE_def split: sum.splits)
  from h have "f ast1 = f ast"
    by (auto simp add: highlightThrow_def thenE_def assms(1) split: sum.splits if_splits
        dest!: attachUnlessPresent_cases)
  moreover from e have "f ast' = f ast1"
    by (auto simp add: enforceThrow_def thenE_def assms(1) split: sum.splits if_splits
        dest!: attachUnlessPresent_cases)
  ultimately show ?thesis by simp
qed

lemma annotateAll_preserves:
  assumes "\<And>a c. f (attach a [c]) = f a"
  shows "annotateAll cfg attach nodes ast = Inr ast' \<Longrightarrow> f ast' = f ast"
proof (induction nodes arbitrary: ast)
  case Nil
  then show ?case by simp
next
  case (Cons n ns)
  then obtain ast1 where a: "annotateThrow cfg attach n ast = Inr ast1"
    and b: "annotateAll cfg attach ns ast1 = Inr ast'"
    by (auto simp add: thenE_def split: sum.splits)
  from annotateThrow_preserves [OF assms a] Cons.IH [OF b] show ?case by simp
qed

lemma traverse_preserves:
  assumes "\<And>a c. f (attach a [c]) = f a"
    and "traverse cfg attach t ast = Inr ast'"
  shows "f ast' = f ast"
  using annotateAll_preserves [of f attach cfg "visits t" ast ast'] assms
  by (simp add: traverse_visits)


section \<open>Duplicate suppression\<close>

lemma some_total:
  assumes "\<forall>c \<in> set cs. \<exists>r. f c = Inr r"
  shows "some f cs = Inr (\<exists>c \<in> set cs. f c = Inr True)"
  using assms by (induction cs) auto

lemma sameComment_wellFormed:
  assumes "startLine c = Inr (Num l)" and "getProp c ''value'' = Inr (Str v)"
    and "startLine new = Inr (Num L)" and "getProp new ''value'' = Inr (Str text)"
  shows "sameComment new c = Inr (l = L - 1 \<and> v = text)"
  using assms by (auto simp add: sameComment_def minusOne_def)

text \<open>What \<^verbatim>\<open>hasComment\<close> answers on the comment list of a parsed file: whether a comment
  with the same text starts on the line before the line of the new comment, which is the line
  of the throw statement.\<close>

lemma hasComment_wellFormed:
  assumes "getProp ast ''comments'' = Inr (Arr cs)"
    and "\<forall>c \<in> set cs. wellFormedComment c"
    and "startLine new = Inr (Num L)" and "getProp new ''value'' = Inr (Str text)"
  shows "hasComment ast new =
           Inr (\<exists>c \<in> set cs. startLine c = Inr (Num (L - 1)) \<and> getProp c ''value'' = Inr (Str text))"
proof -
  have same: "\<exists>l v. sameComment new c = Inr (l = L - 1 \<and> v = text)
                  \<and> startLine c = Inr (Num l) \<and> getProp c ''value'' = Inr (Str v)"
    if "c \<in> set cs" for c
  proof -
    from that assms(2) obtain l v
      where c: "startLine c = Inr (Num l)" "getProp c ''value'' = Inr (Str v)"
      unfolding wellFormedComment_def by blast
    from sameComment_wellFormed [OF c assms(3) assms(4)] c show ?thesis by blast
  qed
  have 1: "\<forall>c \<in> set cs. \<exists>r. sameComment new c = Inr r"
    using same by blast
  have 2: "(sameComment new c = Inr True)
             = (startLine c = Inr (Num (L - 1)) \<and> getProp c ''value'' = Inr (Str text))"
    if "c \<in> set cs" for c
    using same [OF that] by auto
  show ?thesis using assms(1) some_total [OF 1] 2 by (auto simp add: hasComment_def)
qed

text \<open>
  On the tree a pass has just returned, the check does not find the comment of that pass: the
  comment starts on the line of the throw statement, not on the line before, and it hangs on
  the statement, not in the program's list. A second pass hands it to the service again, for
  every service; the library then replaces the comment on the statement by its copy.
\<close>

lemma second_pass_asks_again:
  "traverse highlighting attachComments (program [ifPart [throwOf (identifierOf ''e'') 2]] [])
       (program [ifPart [throwOf (identifierOf ''e'') 2]] [])
     = Inr (program [ifPart [commented (throwOf (identifierOf ''e'') 2)
                               [leadingComment (commentAt '' THROW STATEMENT '' 2)]]] [])
   \<and> hasComment
        (program [ifPart [commented (throwOf (identifierOf ''e'') 2)
                            [leadingComment (commentAt '' THROW STATEMENT '' 2)]]] [])
        (commentAt '' THROW STATEMENT '' 2) = Inr False
   \<and> traverse highlighting attach
        (program [ifPart [commented (throwOf (identifierOf ''e'') 2)
                            [leadingComment (commentAt '' THROW STATEMENT '' 2)]]] [])
        (program [ifPart [commented (throwOf (identifierOf ''e'') 2)
                            [leadingComment (commentAt '' THROW STATEMENT '' 2)]]] [])
     = Inr (attach
              (program [ifPart [commented (throwOf (identifierOf ''e'') 2)
                                  [leadingComment (commentAt '' THROW STATEMENT '' 2)]]] [])
              [commentAt '' THROW STATEMENT '' 2])"
  by (simp add: run_defs)



section \<open>Enforcement of the allowed classes\<close>
















end
